theory Spec2Isabelle
  imports Main "HOL-Library.Word"
begin

section \<open>Faults\<close>

text \<open>
  Every exception the modelled code can raise is a value. \<open>SystemExit n\<close> is what
  \<^verbatim>\<open>sys.exit(n)\<close> raises; \<open>AppError\<close> stands for any exception raised by
  application-supplied code (a callback, a custom allocator, a custom excepthook).
\<close>

datatype error =
    ClosedLoopError
  | ClosedHandleError
  | UVError int
  | KeyError
  | AttributeError
  | NameError
  | ValueError
  | UnicodeDecodeError
  | SystemExit int
  | AppError string

section \<open>Foreign memory\<close>

type_synonym byte = "8 word"

text \<open>A C pointer is \<^verbatim>\<open>ffi.NULL\<close> or an address; C memory maps addresses to bytes.\<close>

datatype ptr = NULL | Addr nat

type_synonym memory = "nat \<Rightarrow> byte"

fun addr_of :: "ptr \<Rightarrow> nat" where
  "addr_of NULL = 0"
| "addr_of (Addr a) = a"

record uv_buf_t =
  buf_base :: ptr
  buf_len :: nat

text \<open>
  Modelled from the spec: \<^verbatim>\<open>library.uv_buffer_set\<close> and
  \<^verbatim>\<open>library.uv_buffer_get_base\<close> (library.py is absent) store and read the base
  pointer and the length of the buffer descriptor handed to the backend, the "buffer" that
  section 4.2 says \<open>allocate\<close> supplies.
\<close>

definition uv_buffer_set :: "uv_buf_t \<Rightarrow> ptr \<Rightarrow> nat \<Rightarrow> uv_buf_t" where
  "uv_buffer_set uv_buf c_base n = uv_buf\<lparr>buf_base := c_base, buf_len := n\<rparr>"

definition uv_buffer_get_base :: "uv_buf_t \<Rightarrow> ptr" where
  "uv_buffer_get_base uv_buf = buf_base uv_buf"

text \<open>
  \<^verbatim>\<open>bytes(ffi.buffer(c_base, length))\<close>: the \<open>n\<close> bytes of C memory that start at
  \<open>c_base\<close>.
\<close>

definition ffi_buffer :: "memory \<Rightarrow> ptr \<Rightarrow> nat \<Rightarrow> byte list" where
  "ffi_buffer mem c_base n = map (\<lambda>i. mem (addr_of c_base + i)) [0..<n]"

section \<open>DefaultAllocator (loop.py)\<close>

record DefaultAllocator =
  buffer_size :: nat
  buffer_in_use :: bool
  c_buffer :: ptr

text \<open>
  \<^verbatim>\<open>
  def allocate(self, handle, suggested_size, uv_buf):
      if self.buffer_in_use:
          library.uv_buffer_set(uv_buf, ffi.NULL, 0)
      else:
          library.uv_buffer_set(uv_buf, self.c_buffer, self.buffer_size)
      self.buffer_in_use = True
  \<close>
  The call mutates \<open>uv_buf\<close> and \<open>self\<close>; the model returns both.
\<close>

definition allocate ::
  "DefaultAllocator \<Rightarrow> 'h \<Rightarrow> nat \<Rightarrow> uv_buf_t \<Rightarrow> uv_buf_t \<times> DefaultAllocator" where
  "allocate self handle suggested_size uv_buf =
     (let uv_buf' =
            (if buffer_in_use self then uv_buffer_set uv_buf NULL 0
             else uv_buffer_set uv_buf (c_buffer self) (buffer_size self))
      in (uv_buf', self\<lparr>buffer_in_use := True\<rparr>))"

text \<open>
  \<^verbatim>\<open>
  def finalize(self, uv_handle, length, uv_buf):
      self.buffer_in_use = False
      c_base = library.uv_buffer_get_base(uv_buf)
      return bytes(ffi.buffer(c_base, length)) if length > 0 else b''
  \<close>
  \<open>length\<close> is the backend's signed read count.
\<close>

definition finalize ::
  "memory \<Rightarrow> DefaultAllocator \<Rightarrow> 'h \<Rightarrow> int \<Rightarrow> uv_buf_t \<Rightarrow> byte list \<times> DefaultAllocator" where
  "finalize mem self uv_handle n uv_buf =
     (let self' = self\<lparr>buffer_in_use := False\<rparr>;
          c_base = uv_buffer_get_base uv_buf
      in ((if n > 0 then ffi_buffer mem c_base (nat n) else []), self'))"

section \<open>Loop (loop.py)\<close>

datatype RunModes = DEFAULT | ONCE | NOWAIT

text \<open>
  \<^verbatim>\<open>sys.exc_info()\<close>: type, value and traceback of the exception being handled, each
  \<open>None\<close> when there is none.
\<close>

type_synonym exc_info = "string option \<times> string option \<times> string option"

text \<open>
  The excepthook is \<open>default_excepthook\<close> or a function assigned by the application; of
  an application's hook the model keeps whether it returns or what it raises.
\<close>

datatype hook = DefaultHook | CustomHook "exc_info \<Rightarrow> error option"

text \<open>
  The allocator is a \<open>DefaultAllocator\<close> or an application-supplied subclass of
  \<open>Allocator\<close>; of the latter the model keeps what its \<open>allocate\<close> stores into the
  buffer descriptor or what it raises.
\<close>

datatype allocator =
    Default DefaultAllocator
  | Custom "nat \<Rightarrow> uv_buf_t \<Rightarrow> error + uv_buf_t"

text \<open>
  Modelled from the spec: \<open>Handle\<close> and \<open>Handle.close\<close> (handle.py is absent). Section 4.3:
  close is a no-op if already closing or closed, otherwise it transitions to closing; the
  removal from the loop's live set happens later, at the backend's close completion.
\<close>

record Handle =
  handle_id :: nat
  closing :: bool

definition Handle_close :: "Handle \<Rightarrow> Handle" where
  "Handle_close h = (if closing h then h else h\<lparr>closing := True\<rparr>)"

text \<open>The backend's loop structure; \<^verbatim>\<open>uv_stop\<close> sets its stop flag.\<close>

record uv_loop_t =
  stop_flag :: bool

definition uv_stop :: "uv_loop_t \<Rightarrow> uv_loop_t" where
  "uv_stop u = u\<lparr>stop_flag := True\<rparr>"

text \<open>
  A \<open>Loop\<close> object. \<open>loop_id\<close> is the object's identity (what \<^verbatim>\<open>is\<close> and set membership
  compare). \<open>hook_calls\<close> is not a field of the source: it records every invocation of
  \<open>self.excepthook\<close> with the arguments passed, so that "the hook was called" can be stated.
\<close>

record Loop =
  loop_id :: nat
  uv_loop :: "uv_loop_t option"
  allocator :: allocator
  excepthook :: hook
  exc_type :: "string option"
  exc_value :: "string option"
  exc_traceback :: "string option"
  handles :: "Handle set"
  requests :: "nat set"
  closed :: bool
  hook_calls :: "exc_info list"

text \<open>
  The class attributes \<^verbatim>\<open>Loop._loops\<close>, \<^verbatim>\<open>Loop._thread_locals.loop\<close> (of the calling
  thread; an attribute that was never assigned is \<open>Unset\<close>, and reading it raises
  AttributeError) and \<^verbatim>\<open>Loop._default\<close>, and the two output streams.
\<close>

datatype thread_local = Unset | Val "nat option"

datatype printed = Text string | Trace exc_info | TraceOf error

record globals =
  Loop_loops :: "nat set"
  Loop_thread_locals_loop :: thread_local
  Loop_default :: "nat option"
  stdout :: "printed list"
  stderr :: "printed list"

text \<open>
  What the backend answers to the calls of one operation (\<^verbatim>\<open>lib.uv_*\<close>), and whether
  writing to an output stream faults. \<open>uv_run\<close> is the backend's dispatch cycle with all the
  callbacks it runs.
\<close>

record lib =
  uv_loop_alive :: int
  uv_now :: nat
  uv_backend_fd :: int
  uv_backend_timeout :: int
  uv_run :: "RunModes \<Rightarrow> globals \<Rightarrow> Loop \<Rightarrow> int \<times> globals \<times> Loop"
  uv_loop_close :: int
  stdout_fault :: "error option"
  stderr_fault :: "error option"

definition print_stdout :: "lib \<Rightarrow> printed \<Rightarrow> globals \<Rightarrow> (error + unit) \<times> globals" where
  "print_stdout l x g =
     (case stdout_fault l of
        Some e \<Rightarrow> (Inl e, g)
      | None \<Rightarrow> (Inr (), g\<lparr>stdout := stdout g @ [x]\<rparr>))"

definition print_stderr :: "lib \<Rightarrow> printed \<Rightarrow> globals \<Rightarrow> (error + unit) \<times> globals" where
  "print_stderr l x g =
     (case stderr_fault l of
        Some e \<Rightarrow> (Inl e, g)
      | None \<Rightarrow> (Inr (), g\<lparr>stderr := stderr g @ [x]\<rparr>))"

text \<open>
  \<^verbatim>\<open>
  def alive(self):
      if self.closed: return False
      return bool(lib.uv_loop_alive(self.uv_loop))
  def now(self):
      if self.closed: raise error.ClosedLoopError()
      return lib.uv_now(self.uv_loop)
  \<close>
  and likewise \<open>fileno\<close>, \<open>update_time\<close> (the backend call returns nothing) and
  \<open>get_timeout\<close>.
\<close>

definition alive :: "lib \<Rightarrow> Loop \<Rightarrow> error + bool" where
  "alive l self = (if closed self then Inr False else Inr (uv_loop_alive l \<noteq> 0))"

definition now :: "lib \<Rightarrow> Loop \<Rightarrow> error + nat" where
  "now l self = (if closed self then Inl ClosedLoopError else Inr (uv_now l))"

definition fileno :: "lib \<Rightarrow> Loop \<Rightarrow> error + int" where
  "fileno l self = (if closed self then Inl ClosedLoopError else Inr (uv_backend_fd l))"

definition make_current :: "globals \<Rightarrow> Loop \<Rightarrow> globals" where
  "make_current g self = g\<lparr>Loop_thread_locals_loop := Val (Some (loop_id self))\<rparr>"

definition update_time :: "lib \<Rightarrow> Loop \<Rightarrow> error + unit" where
  "update_time l self = (if closed self then Inl ClosedLoopError else Inr ())"

definition get_timeout :: "lib \<Rightarrow> Loop \<Rightarrow> error + int" where
  "get_timeout l self =
     (if closed self then Inl ClosedLoopError else Inr (uv_backend_timeout l))"

text \<open>
  \<^verbatim>\<open>
  def run(self, mode=RunModes.DEFAULT):
      if self.closed: raise error.ClosedLoopError()
      self.make_current()
      result = bool(lib.uv_run(self.uv_loop, mode))
      return result
  def stop(self):
      if self.closed: return
      lib.uv_stop(self.uv_loop)
  \<close>
\<close>

definition run :: "lib \<Rightarrow> RunModes \<Rightarrow> globals \<Rightarrow> Loop \<Rightarrow> (error + bool) \<times> globals \<times> Loop" where
  "run l mode g self =
     (if closed self then (Inl ClosedLoopError, g, self)
      else (case uv_run l mode (make_current g self) self of
              (code, g', self') \<Rightarrow> (Inr (code \<noteq> 0), g', self')))"

definition stop :: "Loop \<Rightarrow> (error + unit) \<times> Loop" where
  "stop self =
     (if closed self then (Inr (), self)
      else (Inr (), self\<lparr>uv_loop := map_option uv_stop (uv_loop self)\<rparr>))"

text \<open>
  \<^verbatim>\<open>
  def close(self):
      if self.closed: return
      code = lib.uv_loop_close(self.uv_loop)
      if code < 0: raise error.UVError(code)
      self.uv_loop = None
      self.closed = True
      with Loop._global_lock: Loop._loops.remove(self)
      if Loop._thread_locals.loop is self: Loop._thread_locals.loop = None
  \<close>
  \<^verbatim>\<open>set.remove\<close> raises KeyError on a missing element.
\<close>

definition close :: "lib \<Rightarrow> globals \<Rightarrow> Loop \<Rightarrow> (error + unit) \<times> globals \<times> Loop" where
  "close l g self =
     (if closed self then (Inr (), g, self)
      else if uv_loop_close l < 0 then (Inl (UVError (uv_loop_close l)), g, self)
      else
        (let self1 = self\<lparr>uv_loop := None, closed := True\<rparr> in
         if loop_id self \<notin> Loop_loops g then (Inl KeyError, g, self1)
         else
           (let g1 = g\<lparr>Loop_loops := Loop_loops g - {loop_id self}\<rparr> in
            case Loop_thread_locals_loop g1 of
              Unset \<Rightarrow> (Inl AttributeError, g1, self1)
            | Val v \<Rightarrow>
                (Inr (),
                 (if v = Some (loop_id self) then g1\<lparr>Loop_thread_locals_loop := Val None\<rparr>
                  else g1),
                 self1))))"

text \<open>
  \<^verbatim>\<open>
  def close_all_handles(self, callback=None):
      for handle in self.handles: handle.close(callback)
  \<close>
\<close>

definition close_all_handles :: "Loop \<Rightarrow> (error + unit) \<times> Loop" where
  "close_all_handles self = (Inr (), self\<lparr>handles := Handle_close ` handles self\<rparr>)"

text \<open>
  \<^verbatim>\<open>
  def default_excepthook(loop, exc_type, exc_value, exc_traceback):
      print('Exception happened during callback execution!', file=sys.stderr)
      traceback.print_exception(exc_type, exc_value, exc_traceback)
      loop.stop()
  \<close>
\<close>

definition default_excepthook ::
  "lib \<Rightarrow> globals \<Rightarrow> Loop \<Rightarrow> exc_info \<Rightarrow> (error + unit) \<times> globals \<times> Loop" where
  "default_excepthook l g loop info =
     (case print_stderr l (Text ''Exception happened during callback execution!'') g of
        (Inl e, g1) \<Rightarrow> (Inl e, g1, loop)
      | (Inr _, g1) \<Rightarrow>
          (case print_stderr l (Trace info) g1 of
             (Inl e, g2) \<Rightarrow> (Inl e, g2, loop)
           | (Inr _, g2) \<Rightarrow> (case stop loop of (r, loop') \<Rightarrow> (r, g2, loop'))))"

text \<open>The call \<^verbatim>\<open>self.excepthook(self, self.exc_type, self.exc_value, self.exc_traceback)\<close>.\<close>

definition call_excepthook ::
  "lib \<Rightarrow> globals \<Rightarrow> Loop \<Rightarrow> exc_info \<Rightarrow> (error + unit) \<times> globals \<times> Loop" where
  "call_excepthook l g self info =
     (let self' = self\<lparr>hook_calls := hook_calls self @ [info]\<rparr> in
      case excepthook self of
        DefaultHook \<Rightarrow> default_excepthook l g self' info
      | CustomHook f \<Rightarrow>
          (case f info of None \<Rightarrow> (Inr (), g, self') | Some e \<Rightarrow> (Inl e, g, self')))"

text \<open>
  \<^verbatim>\<open>
  def handle_exception(self):
      self.exc_type, self.exc_value, self.exc_traceback = sys.exc_info()
      try:
          self.excepthook(self, self.exc_type, self.exc_value, self.exc_traceback)
      except:
          try:
              print('[CRITICAL] error while executing excepthook!')
              traceback.print_exc()
          finally:
              sys.exit(1)
  \<close>
  \<open>info\<close> is what \<^verbatim>\<open>sys.exc_info()\<close> returns. The bare \<^verbatim>\<open>except\<close> catches whatever the
  hook raises; a fault of the diagnostics is replaced by the SystemExit of the
  \<^verbatim>\<open>finally\<close> clause.
\<close>

definition handle_exception ::
  "lib \<Rightarrow> exc_info \<Rightarrow> globals \<Rightarrow> Loop \<Rightarrow> (error + unit) \<times> globals \<times> Loop" where
  "handle_exception l info g self =
     (let self1 = self\<lparr>exc_type := fst info, exc_value := fst (snd info),
                        exc_traceback := snd (snd info)\<rparr>
      in case call_excepthook l g self1 info of
           (Inr _, g1, self2) \<Rightarrow> (Inr (), g1, self2)
         | (Inl e, g1, self2) \<Rightarrow>
             (let g3 =
                    (case print_stdout l (Text ''[CRITICAL] error while executing excepthook!'') g1 of
                       (Inl _, g2) \<Rightarrow> g2
                     | (Inr _, g2) \<Rightarrow> snd (print_stderr l (TraceOf e) g2))
              in (Inl (SystemExit 1), g3, self2)))"

text \<open>
  \<^verbatim>\<open>
  def uv_alloc_cb(uv_handle, suggested_size, uv_buf):
      handle = library.detach(uv_handle)
      try:
          handle.loop.allocator.allocate(handle, suggested_size, uv_buf)
      except:
          library.uv_buffer_set(uv_buf, ffi.NULL, 0)
  \<close>
  \<open>loop\<close> is \<^verbatim>\<open>handle.loop\<close>. The callback returns nothing; the model returns the buffer
  descriptor and the loop as the call leaves them.
\<close>

definition uv_alloc_cb :: "Loop \<Rightarrow> 'h \<Rightarrow> nat \<Rightarrow> uv_buf_t \<Rightarrow> uv_buf_t \<times> Loop" where
  "uv_alloc_cb loop handle suggested_size uv_buf =
     (case allocator loop of
        Default a \<Rightarrow>
          (case allocate a handle suggested_size uv_buf of
             (uv_buf', a') \<Rightarrow> (uv_buf', loop\<lparr>allocator := Default a'\<rparr>))
      | Custom f \<Rightarrow>
          (case f suggested_size uv_buf of
             Inr uv_buf' \<Rightarrow> (uv_buf', loop)
           | Inl e \<Rightarrow> (uv_buffer_set uv_buf NULL 0, loop)))"

text \<open>
  Modelled from the spec: the dispatch of an application-supplied callback by the backend
  callbacks of handle.py and stream.py (absent). Section 4.1: any uncaught fault raised
  while executing an application-supplied callback is captured (type, value, originating
  context) and routed to the excepthook instead of propagating through the backend's
  dispatch call. \<open>outcome\<close> is what the application's callback does: None where it
  returns, what \<^verbatim>\<open>sys.exc_info()\<close> holds where it raises.
\<close>

definition dispatch_callback ::
  "lib \<Rightarrow> exc_info option \<Rightarrow> globals \<Rightarrow> Loop \<Rightarrow> (error + unit) \<times> globals \<times> Loop" where
  "dispatch_callback l outcome g loop =
     (case outcome of
        None \<Rightarrow> (Inr (), g, loop)
      | Some info \<Rightarrow> handle_exception l info g loop)"

text \<open>
  The operations of a Loop as one step function on the process-wide state and the loop,
  each with the backend's answers of that call.
\<close>

datatype op =
    Alive | Now | Fileno | MakeCurrent | UpdateTime | GetTimeout
  | Run RunModes | Stop | Close | CloseAllHandles | HandleException exc_info

fun step :: "lib \<times> op \<Rightarrow> globals \<times> Loop \<Rightarrow> globals \<times> Loop" where
  "step (l, Alive) (g, self) = (g, self)"
| "step (l, Now) (g, self) = (g, self)"
| "step (l, Fileno) (g, self) = (g, self)"
| "step (l, MakeCurrent) (g, self) = (make_current g self, self)"
| "step (l, UpdateTime) (g, self) = (g, self)"
| "step (l, GetTimeout) (g, self) = (g, self)"
| "step (l, Run mode) (g, self) = snd (run l mode g self)"
| "step (l, Stop) (g, self) = (g, snd (stop self))"
| "step (l, Close) (g, self) = snd (close l g self)"
| "step (l, CloseAllHandles) (g, self) = (g, snd (close_all_handles self))"
| "step (l, HandleException info) (g, self) = snd (handle_exception l info g self)"

text \<open>
  Example values for evaluation: a loop as \<^verbatim>\<open>Loop()\<close> leaves it (default allocator and
  hook, no exception recorded, no handles or requests, registered and current), the same
  loop after a successful close, and a backend whose calls all succeed.
\<close>

definition loop0 :: Loop where
  "loop0 =
     \<lparr>loop_id = 1, uv_loop = Some \<lparr>stop_flag = False\<rparr>,
      allocator = Default \<lparr>buffer_size = 65536, buffer_in_use = False, c_buffer = Addr 4096\<rparr>,
      excepthook = DefaultHook, exc_type = None, exc_value = None, exc_traceback = None,
      handles = {}, requests = {}, closed = False, hook_calls = []\<rparr>"

definition globals0 :: globals where
  "globals0 =
     \<lparr>Loop_loops = {1}, Loop_thread_locals_loop = Val (Some 1), Loop_default = None,
      stdout = [], stderr = []\<rparr>"

definition lib0 :: lib where
  "lib0 =
     \<lparr>uv_loop_alive = 0, uv_now = 1000, uv_backend_fd = 5, uv_backend_timeout = 0,
      uv_run = (\<lambda>mode g self. (0, g, self)), uv_loop_close = 0,
      stdout_fault = None, stderr_fault = None\<rparr>"

section \<open>Pipe (handles/pipe.py)\<close>

text \<open>
  A Pipe is a Handle (through Stream) with its native \<open>uv_pipe\<close>; \<open>closing\<close> is the
  Handle's property that every operation consults.
\<close>

record Pipe = Handle +
  uv_pipe :: nat
  ipc :: bool

text \<open>
  What the operations of a Pipe call outside pipe.py. The backend's
  \<^verbatim>\<open>uv_pipe_getsockname(pipe, buffer, size)\<close> reads the buffer and the size it is given
  and leaves a status code, the buffer's new content and the new size; its first argument
  here counts the calls made before in the same operation, so that the backend may answer
  a second call otherwise than the first. \<open>SUCCESS\<close> and \<open>ENOBUFS\<close> are the values of
  \<^verbatim>\<open>error.StatusCodes\<close> (error.py is absent; the values depend on the platform).
  \<open>HandleTypes_cls\<close> is \<^verbatim>\<open>handle.HandleTypes(tag).cls\<close>, a class name, or None where
  the enumeration has no such tag (ValueError). \<open>decode\<close> is \<^verbatim>\<open>bytes.decode()\<close>, None
  where it raises UnicodeDecodeError.
\<close>

record pipe_lib =
  SUCCESS :: int
  ENOBUFS :: int
  uv_pipe_pending_count :: int
  uv_pipe_pending_type :: int
  uv_pipe_getsockname :: "nat \<Rightarrow> byte list \<Rightarrow> nat \<Rightarrow> int \<times> byte list \<times> nat"
  uv_pipe_getpeername :: "nat \<Rightarrow> byte list \<Rightarrow> nat \<Rightarrow> int \<times> byte list \<times> nat"
  HandleTypes_cls :: "int \<Rightarrow> string option"
  decode :: "byte list \<Rightarrow> string option"

text \<open>\<^verbatim>\<open>ffi.new('char[]', n)\<close>: \<open>n\<close> zero bytes.\<close>

definition ffi_new_chars :: "nat \<Rightarrow> byte list" where
  "ffi_new_chars n = replicate n 0"

text \<open>
  \<^verbatim>\<open>ffi.string(cdata, maxlen)\<close>: the bytes up to the first zero byte, at most
  \<open>maxlen\<close> of them.
\<close>

definition ffi_string :: "byte list \<Rightarrow> nat \<Rightarrow> byte list" where
  "ffi_string cdata maxlen = takeWhile (\<lambda>b. b \<noteq> 0) (take maxlen cdata)"

text \<open>
  \<^verbatim>\<open>
  def pending_count(self):
      if self.closing:
          return 0
      return lib.uv_pipe_pending_count(self.uv_pipe)
  def pending_type(self):
      if self.closing:
          raise error.ClosedHandleError()
      return handle.HandleTypes(lib.uv_pipe_pending_type(self.uv_pipe)).cls
  \<close>
\<close>

definition pending_count :: "pipe_lib \<Rightarrow> Pipe \<Rightarrow> error + int" where
  "pending_count l self = (if closing self then Inr 0 else Inr (uv_pipe_pending_count l))"

definition pending_type :: "pipe_lib \<Rightarrow> Pipe \<Rightarrow> error + string" where
  "pending_type l self =
     (if closing self then Inl ClosedHandleError
      else (case HandleTypes_cls l (uv_pipe_pending_type l) of
              None \<Rightarrow> Inl ValueError
            | Some c \<Rightarrow> Inr c))"

text \<open>
  \<^verbatim>\<open>
  def sockname(self):
      if self.closing:
          raise error.ClosedHandleError()
      c_buffer = ffi.new('char[]', 255)
      c_size = ffi.new('size_t*', 255)
      code = lib.uv_pipe_getsockname(self.uv_pipe, c_buffer, c_size)
      if code == error.StatusCodes.ENOBUFS:
          c_buffer = ffi.new('char[]', c_size[0])
          code = lib.uv_pipe_getsockname(self.uv_pipe, c_buffer, c_size)
      if code != error.StatusCodes.SUCCESS:
          raise error.UVError(code)
      return ffi.string(c_buffer, c_size[0]).decode()
  \<close>
  The model returns, with the result, the backend calls made: for each the capacity of the
  buffer passed and the size passed.
\<close>

definition sockname :: "pipe_lib \<Rightarrow> Pipe \<Rightarrow> (error + string) \<times> (nat \<times> nat) list" where
  "sockname l self =
     (if closing self then (Inl ClosedHandleError, [])
      else
        (let c_buffer = ffi_new_chars 255;
             c_size = 255;
             (code, c_buffer1, c_size1) = uv_pipe_getsockname l 0 c_buffer c_size;
             calls = [(length c_buffer, c_size)];
             (code2, c_buffer2, c_size2, calls2) =
               (if code = ENOBUFS l then
                  (let c_buffer' = ffi_new_chars c_size1;
                       (code', c_buffer'', c_size') = uv_pipe_getsockname l 1 c_buffer' c_size1
                   in (code', c_buffer'', c_size', calls @ [(length c_buffer', c_size1)]))
                else (code, c_buffer1, c_size1, calls))
         in if code2 \<noteq> SUCCESS l then (Inl (UVError code2), calls2)
            else (case decode l (ffi_string c_buffer2 c_size2) of
                    None \<Rightarrow> (Inl UnicodeDecodeError, calls2)
                  | Some s \<Rightarrow> (Inr s, calls2))))"

text \<open>\<open>peername\<close> is the same code over \<^verbatim>\<open>lib.uv_pipe_getpeername\<close>.\<close>

definition peername :: "pipe_lib \<Rightarrow> Pipe \<Rightarrow> (error + string) \<times> (nat \<times> nat) list" where
  "peername l self =
     (if closing self then (Inl ClosedHandleError, [])
      else
        (let c_buffer = ffi_new_chars 255;
             c_size = 255;
             (code, c_buffer1, c_size1) = uv_pipe_getpeername l 0 c_buffer c_size;
             calls = [(length c_buffer, c_size)];
             (code2, c_buffer2, c_size2, calls2) =
               (if code = ENOBUFS l then
                  (let c_buffer' = ffi_new_chars c_size1;
                       (code', c_buffer'', c_size') = uv_pipe_getpeername l 1 c_buffer' c_size1
                   in (code', c_buffer'', c_size', calls @ [(length c_buffer', c_size1)]))
                else (code, c_buffer1, c_size1, calls))
         in if code2 \<noteq> SUCCESS l then (Inl (UVError code2), calls2)
            else (case decode l (ffi_string c_buffer2 c_size2) of
                    None \<Rightarrow> (Inl UnicodeDecodeError, calls2)
                  | Some s \<Rightarrow> (Inr s, calls2))))"

text \<open>
  Example values: a backend that knows a name of 300 bytes \<open>a\<close>. It answers a call whose
  size is too small with ENOBUFS and the size needed, and a call with room by writing the
  name. The codes are those of libuv on Linux; \<open>decode\<close> reads each byte as a character.
\<close>

definition long_name :: "byte list" where
  "long_name = replicate 300 97"

definition name_backend :: "byte list \<Rightarrow> nat \<Rightarrow> byte list \<Rightarrow> nat \<Rightarrow> int \<times> byte list \<times> nat" where
  "name_backend nm k buffer sz =
     (if sz \<le> length nm then (-105, buffer, length nm + 1)
      else (0, nm @ drop (length nm) buffer, length nm))"

definition pipe_lib0 :: pipe_lib where
  "pipe_lib0 =
     \<lparr>SUCCESS = 0, ENOBUFS = -105, uv_pipe_pending_count = 2, uv_pipe_pending_type = 7,
      uv_pipe_getsockname = name_backend long_name,
      uv_pipe_getpeername = name_backend long_name,
      HandleTypes_cls = (\<lambda>t. if t = 7 then Some ''Pipe'' else None),
      decode = (\<lambda>bs. Some (map (\<lambda>b. char_of (unat b)) bs))\<rparr>"

text \<open>
  A name of four bytes that starts with a zero byte, as the names of Linux abstract
  sockets do, and a backend that knows this name.
\<close>

definition abstract_name :: "byte list" where
  "abstract_name = [0, 97, 98, 99]"

definition pipe_lib1 :: pipe_lib where
  "pipe_lib1 =
     pipe_lib0\<lparr>uv_pipe_getsockname := name_backend abstract_name,
              uv_pipe_getpeername := name_backend abstract_name\<rparr>"

definition pipe0 :: Pipe where
  "pipe0 = \<lparr>handle_id = 3, closing = False, uv_pipe = 8192, ipc = False\<rparr>"

section \<open>TCP (handles/tcp.py)\<close>

type_synonym sockaddr = "string \<times> int"

text \<open>A connect request object: its native \<open>uv_connect\<close> and the completion callback.\<close>

record ConnectRequest =
  uv_connect :: nat
  callback :: "string option"

text \<open>
  A TCP handle: a Handle (through Stream) with its native \<open>tcp\<close>, the last socket address
  and the set \<open>requests\<close> that keeps issued requests alive.
\<close>

record TCP = Handle +
  tcp :: nat
  sockaddr :: "sockaddr option"
  requests :: "ConnectRequest set"

text \<open>
  What \<open>TCP.connect\<close> calls outside tcp.py: the constructor \<^verbatim>\<open>ConnectRequest(callback)\<close>
  (stream.py is absent), the address construction \<^verbatim>\<open>c_create_sockaddr\<close> (dns.py is
  absent) and the backend's \<^verbatim>\<open>uv_tcp_connect\<close>.
\<close>

record tcp_lib =
  new_ConnectRequest :: "string option \<Rightarrow> error + ConnectRequest"
  c_create_sockaddr :: "string \<Rightarrow> int \<Rightarrow> error + sockaddr"
  uv_tcp_connect :: "nat \<Rightarrow> nat \<Rightarrow> sockaddr \<Rightarrow> int"

text \<open>
  tcp.py calls \<^verbatim>\<open>c_require\<close> and neither imports nor defines a name \<^verbatim>\<open>c_require\<close>:
  the call raises NameError (the value is the fault raised, None would be a return).
\<close>

definition c_require :: "nat \<Rightarrow> sockaddr \<Rightarrow> error option" where
  "c_require uv_request sa = Some NameError"

text \<open>
  \<^verbatim>\<open>
  def connect(self, ip, port, callback=None):
      request = ConnectRequest(callback)
      self.sockaddr = c_create_sockaddr(ip, port)
      c_require(request.uv_connect, self.sockaddr)
      self.requests.add(request)
      code = lib.uv_tcp_connect(request.uv_connect, self.tcp, self.sockaddr, uv_connect_cb)
      if code < 0: raise UVError(code)
      return request
  \<close>
\<close>

definition TCP_connect ::
  "tcp_lib \<Rightarrow> TCP \<Rightarrow> string \<Rightarrow> int \<Rightarrow> string option \<Rightarrow> (error + ConnectRequest) \<times> TCP" where
  "TCP_connect l self ip port cb =
     (case new_ConnectRequest l cb of
        Inl e \<Rightarrow> (Inl e, self)
      | Inr request \<Rightarrow>
          (case c_create_sockaddr l ip port of
             Inl e \<Rightarrow> (Inl e, self)
           | Inr sa \<Rightarrow>
               (let self1 = self\<lparr>sockaddr := Some sa\<rparr> in
                case c_require (uv_connect request) sa of
                  Some e \<Rightarrow> (Inl e, self1)
                | None \<Rightarrow>
                    (let self2 = self1\<lparr>requests := insert request (requests self1)\<rparr>;
                         code = uv_tcp_connect l (uv_connect request) (tcp self2) sa
                     in if code < 0 then (Inl (UVError code), self2)
                        else (Inr request, self2)))))"

text \<open>
  Example values: an open TCP handle with no request registered, and collaborators that
  succeed, with a backend that answers a connect with the status \<open>code\<close>.
\<close>

definition tcp0 :: TCP where
  "tcp0 = \<lparr>handle_id = 2, closing = False, tcp = 12288, sockaddr = None, requests = {}\<rparr>"

definition tcp_lib0 :: "int \<Rightarrow> tcp_lib" where
  "tcp_lib0 code =
     \<lparr>new_ConnectRequest = (\<lambda>cb. Inr \<lparr>uv_connect = 16384, callback = cb\<rparr>),
      c_create_sockaddr = (\<lambda>ip port. Inr (ip, port)),
      uv_tcp_connect = (\<lambda>r t sa. code)\<rparr>"

section \<open>The default allocator\<close>

lemma length_ffi_buffer: "length (ffi_buffer mem p n) = n"
  by (simp add: ffi_buffer_def)

lemma nth_ffi_buffer: "i < n \<Longrightarrow> ffi_buffer mem p n ! i = mem (addr_of p + i)"
  by (simp add: ffi_buffer_def)

text \<open>
  Claim C4. When the single buffer is in use, \<open>allocate\<close> supplies the null base with
  length zero; when it is free, it supplies the allocator's own buffer with its full
  \<open>buffer_size\<close>. In both cases it returns (no fault, no blocking) and the buffer is
  marked in use afterwards.
\<close>

theorem allocate_in_use_or_full:
  "(buffer_in_use a \<longrightarrow>
      buf_base (fst (allocate a h sz b)) = NULL \<and> buf_len (fst (allocate a h sz b)) = 0)
   \<and> (\<not> buffer_in_use a \<longrightarrow>
      buf_base (fst (allocate a h sz b)) = c_buffer a
      \<and> buf_len (fst (allocate a h sz b)) = buffer_size a)
   \<and> buffer_in_use (snd (allocate a h sz b))"
  by (simp add: allocate_def uv_buffer_set_def)

theorem allocate_in_use_or_full_witness:
  "buffer_in_use \<lparr>buffer_size = 65536, buffer_in_use = True, c_buffer = Addr 4096\<rparr>
   \<and> buf_base (fst (allocate \<lparr>buffer_size = 65536, buffer_in_use = True, c_buffer = Addr 4096\<rparr>
         (0::nat) 1024 \<lparr>buf_base = Addr 7, buf_len = 9\<rparr>)) = NULL
   \<and> buf_len (fst (allocate \<lparr>buffer_size = 65536, buffer_in_use = True, c_buffer = Addr 4096\<rparr>
         (0::nat) 1024 \<lparr>buf_base = Addr 7, buf_len = 9\<rparr>)) = 0
   \<and> \<not> buffer_in_use \<lparr>buffer_size = 65536, buffer_in_use = False, c_buffer = Addr 4096\<rparr>
   \<and> buf_base (fst (allocate \<lparr>buffer_size = 65536, buffer_in_use = False, c_buffer = Addr 4096\<rparr>
         (0::nat) 1024 \<lparr>buf_base = Addr 7, buf_len = 9\<rparr>)) = Addr 4096
   \<and> buf_len (fst (allocate \<lparr>buffer_size = 65536, buffer_in_use = False, c_buffer = Addr 4096\<rparr>
         (0::nat) 1024 \<lparr>buf_base = Addr 7, buf_len = 9\<rparr>)) = 65536"
  using allocate_in_use_or_full
          [of "\<lparr>buffer_size = 65536, buffer_in_use = True, c_buffer = Addr 4096\<rparr>"
              "0::nat" 1024 "\<lparr>buf_base = Addr 7, buf_len = 9\<rparr>"]
        allocate_in_use_or_full
          [of "\<lparr>buffer_size = 65536, buffer_in_use = False, c_buffer = Addr 4096\<rparr>"
              "0::nat" 1024 "\<lparr>buf_base = Addr 7, buf_len = 9\<rparr>"]
  by simp

text \<open>
  Claim C5. \<open>finalize\<close> with reported length \<open>n\<close> clears the in-use flag; for \<open>n > 0\<close> it
  returns exactly \<open>n\<close> bytes, the bytes of memory that start at the buffer's base; for
  \<open>n \<le> 0\<close> it returns the empty byte string.
\<close>

theorem finalize_releases_and_returns_length:
  "\<not> buffer_in_use (snd (finalize mem a h n b))
   \<and> (0 < n \<longrightarrow>
        int (length (fst (finalize mem a h n b))) = n
        \<and> (\<forall>i < nat n. fst (finalize mem a h n b) ! i = mem (addr_of (buf_base b) + i)))
   \<and> (n \<le> 0 \<longrightarrow> fst (finalize mem a h n b) = [])"
  by (simp add: finalize_def uv_buffer_get_base_def length_ffi_buffer nth_ffi_buffer)

theorem finalize_releases_and_returns_length_witness:
  "\<not> buffer_in_use (snd (finalize (\<lambda>i. word_of_nat i)
        \<lparr>buffer_size = 65536, buffer_in_use = True, c_buffer = Addr 4096\<rparr>
        (0::nat) 3 \<lparr>buf_base = Addr 4096, buf_len = 65536\<rparr>))
   \<and> (0::int) < 3
   \<and> length (fst (finalize (\<lambda>i. word_of_nat i)
        \<lparr>buffer_size = 65536, buffer_in_use = True, c_buffer = Addr 4096\<rparr>
        (0::nat) 3 \<lparr>buf_base = Addr 4096, buf_len = 65536\<rparr>)) = 3
   \<and> (-1::int) \<le> 0
   \<and> fst (finalize (\<lambda>i. word_of_nat i)
        \<lparr>buffer_size = 65536, buffer_in_use = True, c_buffer = Addr 4096\<rparr>
        (0::nat) (-1) \<lparr>buf_base = Addr 4096, buf_len = 65536\<rparr>) = []"
  using finalize_releases_and_returns_length
          [of "\<lambda>i. word_of_nat i"
              "\<lparr>buffer_size = 65536, buffer_in_use = True, c_buffer = Addr 4096\<rparr>"
              "0::nat" 3 "\<lparr>buf_base = Addr 4096, buf_len = 65536\<rparr>"]
        finalize_releases_and_returns_length
          [of "\<lambda>i. word_of_nat i"
              "\<lparr>buffer_size = 65536, buffer_in_use = True, c_buffer = Addr 4096\<rparr>"
              "0::nat" "-1" "\<lparr>buf_base = Addr 4096, buf_len = 65536\<rparr>"]
  by simp

section \<open>Fault containment\<close>

lemma call_excepthook_fields:
  "call_excepthook l g self info = (r, g', self') \<Longrightarrow>
     exc_type self' = exc_type self \<and> exc_value self' = exc_value self
     \<and> exc_traceback self' = exc_traceback self \<and> closed self' = closed self
     \<and> hook_calls self' = hook_calls self @ [info]"
  by (auto simp: call_excepthook_def default_excepthook_def print_stderr_def stop_def Let_def
      split: hook.splits option.splits if_splits prod.splits sum.splits)

lemma handle_exception_fields:
  "handle_exception l info g self = (r, g', self') \<Longrightarrow>
     exc_type self' = fst info \<and> exc_value self' = fst (snd info)
     \<and> exc_traceback self' = snd (snd info) \<and> closed self' = closed self
     \<and> hook_calls self' = hook_calls self @ [info]"
  unfolding handle_exception_def Let_def
  by (auto split: prod.splits sum.splits dest!: call_excepthook_fields)

text \<open>
  Claim C2. If the installed excepthook raises (any fault \<open>e\<close>, from the default hook or
  from an application's), \<open>handle_exception\<close> does not return: it ends in
  \<^verbatim>\<open>sys.exit(1)\<close>, whatever happens to the diagnostics. The diagnostics are best effort:
  the critical line is on stdout when stdout can be written, and the traceback of \<open>e\<close> is
  on stderr when both streams can be written.
\<close>

theorem handle_exception_hook_fault_exits:
  assumes "fst (call_excepthook l g
                  (self\<lparr>exc_type := fst info, exc_value := fst (snd info),
                         exc_traceback := snd (snd info)\<rparr>) info) = Inl e"
  shows "fst (handle_exception l info g self) = Inl (SystemExit 1)
    \<and> (stdout_fault l = None \<longrightarrow>
         Text ''[CRITICAL] error while executing excepthook!''
           \<in> set (stdout (fst (snd (handle_exception l info g self)))))
    \<and> (stdout_fault l = None \<and> stderr_fault l = None \<longrightarrow>
         TraceOf e \<in> set (stderr (fst (snd (handle_exception l info g self)))))"
  using assms unfolding handle_exception_def Let_def
  by (auto simp: print_stdout_def print_stderr_def split: prod.splits sum.splits option.splits)

theorem handle_exception_hook_fault_exits_witness:
  "fst (call_excepthook lib0 globals0
          ((loop0\<lparr>excepthook := CustomHook (\<lambda>i. Some (AppError ''hook failed''))\<rparr>)
             \<lparr>exc_type := fst (Some ''ValueError'', Some ''bad value'', Some ''tb''),
              exc_value := fst (snd (Some ''ValueError'', Some ''bad value'', Some ''tb'')),
              exc_traceback := snd (snd (Some ''ValueError'', Some ''bad value'', Some ''tb''))\<rparr>)
          (Some ''ValueError'', Some ''bad value'', Some ''tb''))
     = Inl (AppError ''hook failed'')
   \<and> fst (handle_exception lib0 (Some ''ValueError'', Some ''bad value'', Some ''tb'') globals0
            (loop0\<lparr>excepthook := CustomHook (\<lambda>i. Some (AppError ''hook failed''))\<rparr>))
     = Inl (SystemExit 1)
   \<and> stdout_fault lib0 = None \<and> stderr_fault lib0 = None
   \<and> Text ''[CRITICAL] error while executing excepthook!''
        \<in> set (stdout (fst (snd (handle_exception lib0
              (Some ''ValueError'', Some ''bad value'', Some ''tb'') globals0
              (loop0\<lparr>excepthook := CustomHook (\<lambda>i. Some (AppError ''hook failed''))\<rparr>)))))
   \<and> TraceOf (AppError ''hook failed'')
        \<in> set (stderr (fst (snd (handle_exception lib0
              (Some ''ValueError'', Some ''bad value'', Some ''tb'') globals0
              (loop0\<lparr>excepthook := CustomHook (\<lambda>i. Some (AppError ''hook failed''))\<rparr>)))))"
proof -
  have h: "fst (call_excepthook lib0 globals0
          ((loop0\<lparr>excepthook := CustomHook (\<lambda>i. Some (AppError ''hook failed''))\<rparr>)
             \<lparr>exc_type := fst (Some ''ValueError'', Some ''bad value'', Some ''tb''),
              exc_value := fst (snd (Some ''ValueError'', Some ''bad value'', Some ''tb'')),
              exc_traceback := snd (snd (Some ''ValueError'', Some ''bad value'', Some ''tb''))\<rparr>)
          (Some ''ValueError'', Some ''bad value'', Some ''tb''))
     = Inl (AppError ''hook failed'')"
    by (simp add: call_excepthook_def loop0_def)
  have f: "stdout_fault lib0 = None \<and> stderr_fault lib0 = None"
    by (simp add: lib0_def)
  from handle_exception_hook_fault_exits [OF h] h f show ?thesis
    by simp
qed

lemma dispatch_callback_fields:
  "dispatch_callback l (Some info) g loop = (r, g', loop') \<Longrightarrow>
     exc_type loop' = fst info \<and> exc_value loop' = fst (snd info)
     \<and> exc_traceback loop' = snd (snd info)
     \<and> hook_calls loop' = hook_calls loop @ [info]"
  by (simp add: dispatch_callback_def handle_exception_fields)

lemma dispatch_callback_default_hook:
  "excepthook loop = DefaultHook \<Longrightarrow> stderr_fault l = None \<Longrightarrow>
     fst (dispatch_callback l (Some info) g loop) = Inr ()
     \<and> stderr (fst (snd (dispatch_callback l (Some info) g loop)))
         = stderr g @ [Text ''Exception happened during callback execution!'', Trace info]
     \<and> uv_loop (snd (snd (dispatch_callback l (Some info) g loop)))
         = (if closed loop then uv_loop loop else map_option uv_stop (uv_loop loop))"
  by (simp add: dispatch_callback_def handle_exception_def call_excepthook_def
      default_excepthook_def print_stderr_def stop_def Let_def)

lemma dispatch_callback_custom_hook:
  "excepthook loop = CustomHook f \<Longrightarrow> f info = None \<Longrightarrow>
     fst (dispatch_callback l (Some info) g loop) = Inr ()"
  by (simp add: dispatch_callback_def handle_exception_def call_excepthook_def Let_def)

text \<open>
  Claim C3, as the code has it. A fault raised by an application-supplied callback during
  dispatch is routed to the loop's excepthook: it is recorded in \<open>exc_type\<close>,
  \<open>exc_value\<close>, \<open>exc_traceback\<close> and the hook is invoked with it; a hook that returns
  (the default hook with a writable stderr prints the fault and stops the loop) ends the
  dispatch without a fault. The buffer-allocation callback is the exception: a fault raised
  there by an application's allocator is contained, the backend is given the null buffer of
  length zero, and the loop (its recorded exception, the hook's invocations) is left as it
  was.
\<close>

theorem dispatch_faults_reach_hook_except_alloc_cb:
  "exc_type (snd (snd (dispatch_callback l (Some info) g loop))) = fst info
   \<and> exc_value (snd (snd (dispatch_callback l (Some info) g loop))) = fst (snd info)
   \<and> exc_traceback (snd (snd (dispatch_callback l (Some info) g loop))) = snd (snd info)
   \<and> hook_calls (snd (snd (dispatch_callback l (Some info) g loop))) = hook_calls loop @ [info]
   \<and> (excepthook loop = DefaultHook \<and> stderr_fault l = None \<longrightarrow>
        fst (dispatch_callback l (Some info) g loop) = Inr ()
        \<and> stderr (fst (snd (dispatch_callback l (Some info) g loop)))
            = stderr g @ [Text ''Exception happened during callback execution!'', Trace info]
        \<and> uv_loop (snd (snd (dispatch_callback l (Some info) g loop)))
            = (if closed loop then uv_loop loop else map_option uv_stop (uv_loop loop)))
   \<and> (excepthook loop = CustomHook k \<and> k info = None \<longrightarrow>
        fst (dispatch_callback l (Some info) g loop) = Inr ())
   \<and> (allocator loop = Custom f \<and> f sz b = Inl e \<longrightarrow>
        uv_alloc_cb loop h sz b = (uv_buffer_set b NULL 0, loop))"
proof -
  obtain r g' loop' where d: "dispatch_callback l (Some info) g loop = (r, g', loop')"
    by (cases "dispatch_callback l (Some info) g loop") auto
  have a: "allocator loop = Custom f \<and> f sz b = Inl e \<longrightarrow>
        uv_alloc_cb loop h sz b = (uv_buffer_set b NULL 0, loop)"
    by (simp add: uv_alloc_cb_def)
  from dispatch_callback_fields [OF d] d
  have "exc_type (snd (snd (dispatch_callback l (Some info) g loop))) = fst info
   \<and> exc_value (snd (snd (dispatch_callback l (Some info) g loop))) = fst (snd info)
   \<and> exc_traceback (snd (snd (dispatch_callback l (Some info) g loop))) = snd (snd info)
   \<and> hook_calls (snd (snd (dispatch_callback l (Some info) g loop))) = hook_calls loop @ [info]"
    by simp
  with a dispatch_callback_default_hook [of loop l info g]
       dispatch_callback_custom_hook [of loop k info l g]
  show ?thesis by blast
qed

theorem dispatch_faults_reach_hook_except_alloc_cb_witness:
  "excepthook loop0 = DefaultHook \<and> stderr_fault lib0 = None
   \<and> fst (dispatch_callback lib0 (Some (Some ''ValueError'', Some ''bad value'', Some ''tb''))
        globals0 loop0) = Inr ()
   \<and> hook_calls (snd (snd (dispatch_callback lib0
        (Some (Some ''ValueError'', Some ''bad value'', Some ''tb'')) globals0 loop0)))
       = [(Some ''ValueError'', Some ''bad value'', Some ''tb'')]
   \<and> exc_type (snd (snd (dispatch_callback lib0
        (Some (Some ''ValueError'', Some ''bad value'', Some ''tb'')) globals0 loop0)))
       = Some ''ValueError''
   \<and> stderr (fst (snd (dispatch_callback lib0
        (Some (Some ''ValueError'', Some ''bad value'', Some ''tb'')) globals0 loop0)))
       = [Text ''Exception happened during callback execution!'',
          Trace (Some ''ValueError'', Some ''bad value'', Some ''tb'')]
   \<and> uv_loop (snd (snd (dispatch_callback lib0
        (Some (Some ''ValueError'', Some ''bad value'', Some ''tb'')) globals0 loop0)))
       = Some \<lparr>stop_flag = True\<rparr>
   \<and> allocator (loop0\<lparr>allocator := Custom (\<lambda>sz b. Inl (AppError ''no memory''))\<rparr>)
       = Custom (\<lambda>sz b. Inl (AppError ''no memory''))
   \<and> uv_alloc_cb (loop0\<lparr>allocator := Custom (\<lambda>sz b. Inl (AppError ''no memory''))\<rparr>)
        (7::nat) 65536 \<lparr>buf_base = Addr 9, buf_len = 3\<rparr>
       = (\<lparr>buf_base = NULL, buf_len = 0\<rparr>,
          loop0\<lparr>allocator := Custom (\<lambda>sz b. Inl (AppError ''no memory''))\<rparr>)"
proof -
  have p: "excepthook loop0 = DefaultHook \<and> stderr_fault lib0 = None
     \<and> hook_calls loop0 = [] \<and> \<not> closed loop0 \<and> stderr globals0 = []
     \<and> uv_loop loop0 = Some \<lparr>stop_flag = False\<rparr>"
    by (simp add: loop0_def lib0_def globals0_def)
  have q: "allocator (loop0\<lparr>allocator := Custom (\<lambda>sz b. Inl (AppError ''no memory''))\<rparr>)
       = Custom (\<lambda>sz b. Inl (AppError ''no memory''))"
    by simp
  from dispatch_faults_reach_hook_except_alloc_cb
         [of lib0 "(Some ''ValueError'', Some ''bad value'', Some ''tb'')" globals0 loop0
             "\<lambda>i. None" "\<lambda>sz b. Inl (AppError ''no memory'')" 65536
             "\<lparr>buf_base = Addr 9, buf_len = 3\<rparr>" "AppError ''no memory''" "7::nat"]
       dispatch_faults_reach_hook_except_alloc_cb
         [of lib0 "(Some ''ValueError'', Some ''bad value'', Some ''tb'')" globals0
             "loop0\<lparr>allocator := Custom (\<lambda>sz b. Inl (AppError ''no memory''))\<rparr>"
             "\<lambda>i. None" "\<lambda>sz b. Inl (AppError ''no memory'')" 65536
             "\<lparr>buf_base = Addr 9, buf_len = 3\<rparr>" "AppError ''no memory''" "7::nat"]
       p q
  show ?thesis by (simp add: uv_stop_def uv_buffer_set_def)
qed

text \<open>
  Claim C3 as stated fails: an application's allocator raises during the buffer-allocation
  callback, and afterwards the excepthook has not been invoked and no exception is recorded
  on the loop.
\<close>

theorem alloc_cb_fault_dropped_counterexample:
  "(case allocator (loop0\<lparr>allocator := Custom (\<lambda>sz b. Inl (AppError ''no memory''))\<rparr>) of
      Custom f \<Rightarrow> f 65536 \<lparr>buf_base = Addr 9, buf_len = 3\<rparr> = Inl (AppError ''no memory'')
    | Default a \<Rightarrow> False)
   \<and> hook_calls (snd (uv_alloc_cb
        (loop0\<lparr>allocator := Custom (\<lambda>sz b. Inl (AppError ''no memory''))\<rparr>)
        (7::nat) 65536 \<lparr>buf_base = Addr 9, buf_len = 3\<rparr>)) = []
   \<and> exc_type (snd (uv_alloc_cb
        (loop0\<lparr>allocator := Custom (\<lambda>sz b. Inl (AppError ''no memory''))\<rparr>)
        (7::nat) 65536 \<lparr>buf_base = Addr 9, buf_len = 3\<rparr>)) = None
   \<and> exc_value (snd (uv_alloc_cb
        (loop0\<lparr>allocator := Custom (\<lambda>sz b. Inl (AppError ''no memory''))\<rparr>)
        (7::nat) 65536 \<lparr>buf_base = Addr 9, buf_len = 3\<rparr>)) = None"
  by (simp add: uv_alloc_cb_def loop0_def)

section \<open>The closed loop\<close>

text \<open>
  Claim C6, as the code has it. On a closed loop \<open>run\<close>, \<open>now\<close>, \<open>fileno\<close>,
  \<open>update_time\<close> and \<open>get_timeout\<close> raise the closed-loop fault; \<open>alive\<close> returns False,
  \<open>stop\<close> and \<open>close\<close> return without raising and change nothing, and
  \<open>close_all_handles\<close> returns without raising.
\<close>

theorem closed_loop_operations:
  "closed self \<Longrightarrow>
     fst (run l mode g self) = Inl ClosedLoopError
     \<and> now l self = Inl ClosedLoopError
     \<and> fileno l self = Inl ClosedLoopError
     \<and> update_time l self = Inl ClosedLoopError
     \<and> get_timeout l self = Inl ClosedLoopError
     \<and> alive l self = Inr False
     \<and> stop self = (Inr (), self)
     \<and> close l g self = (Inr (), g, self)
     \<and> fst (close_all_handles self) = Inr ()"
  by (simp add: run_def now_def fileno_def update_time_def get_timeout_def alive_def stop_def
      close_def close_all_handles_def)

theorem closed_loop_operations_witness:
  "closed (snd (snd (close lib0 globals0 loop0)))
   \<and> fst (run lib0 DEFAULT globals0 (snd (snd (close lib0 globals0 loop0)))) = Inl ClosedLoopError
   \<and> now lib0 (snd (snd (close lib0 globals0 loop0))) = Inl ClosedLoopError
   \<and> alive lib0 (snd (snd (close lib0 globals0 loop0))) = Inr False
   \<and> fst (stop (snd (snd (close lib0 globals0 loop0)))) = Inr ()"
proof -
  have c: "closed (snd (snd (close lib0 globals0 loop0)))"
    by (simp add: close_def lib0_def globals0_def loop0_def)
  from closed_loop_operations [OF c, of lib0 DEFAULT globals0] c show ?thesis
    by simp
qed

text \<open>
  Claim C6 as stated fails: on a loop that \<open>close\<close> has closed, \<open>alive\<close> and \<open>stop\<close>
  return (False, and nothing) instead of raising the closed-loop fault.
\<close>

theorem closed_loop_alive_stop_counterexample:
  "closed (snd (snd (close lib0 globals0 loop0)))
   \<and> alive lib0 (snd (snd (close lib0 globals0 loop0))) \<noteq> Inl ClosedLoopError
   \<and> alive lib0 (snd (snd (close lib0 globals0 loop0))) = Inr False
   \<and> fst (stop (snd (snd (close lib0 globals0 loop0)))) \<noteq> Inl ClosedLoopError
   \<and> fst (stop (snd (snd (close lib0 globals0 loop0)))) = Inr ()"
  by (simp add: close_def alive_def stop_def lib0_def globals0_def loop0_def)

lemma step_closed: "closed self \<Longrightarrow> closed (snd (step (l, x) (g, self)))"
proof (cases x)
  case (HandleException info)
  obtain r g' self' where h: "handle_exception l info g self = (r, g', self')"
    by (cases "handle_exception l info g self") auto
  assume "closed self"
  with handle_exception_fields [OF h] h HandleException show ?thesis by simp
qed (auto simp: run_def stop_def close_def close_all_handles_def)

text \<open>
  Claim C7. Once \<open>closed\<close> is true, it stays true through every sequence of Loop
  operations, whatever the backend answers to each.
\<close>

theorem closed_never_reverts:
  "closed self \<Longrightarrow> closed (snd (fold step ops (g, self)))"
proof (induction ops arbitrary: g self)
  case Nil
  then show ?case by simp
next
  case (Cons a ops)
  obtain l x where a: "a = (l, x)" by (cases a)
  obtain g' self' where s: "step (l, x) (g, self) = (g', self')"
    by (cases "step (l, x) (g, self)")
  from step_closed [OF Cons.prems, of l x g] s have "closed self'" by simp
  from Cons.IH [OF this, of g'] a s show ?case by simp
qed

theorem closed_never_reverts_witness:
  "closed (snd (step (lib0, Close) (globals0, loop0)))
   \<and> closed (snd (fold step
        [(lib0, Run DEFAULT), (lib0, Close), (lib0, Stop), (lib0, MakeCurrent),
         (lib0, HandleException (Some ''ValueError'', Some ''bad value'', Some ''tb'')),
         (lib0, CloseAllHandles), (lib0, Alive)]
        (fst (step (lib0, Close) (globals0, loop0)), snd (step (lib0, Close) (globals0, loop0)))))"
proof -
  have c: "closed (snd (step (lib0, Close) (globals0, loop0)))"
    by (simp add: close_def lib0_def globals0_def loop0_def)
  show ?thesis
    by (rule conjI [OF c closed_never_reverts [OF c]])
qed

text \<open>
  Claim C8. After a \<open>close\<close> that succeeded, another \<open>close\<close> (whatever the backend would
  answer) returns without raising and leaves the loop, the loop registry, the current-loop
  designation and everything else of the process-wide state as they were.
\<close>

theorem close_after_success_is_noop:
  "fst (close l g self) = Inr () \<Longrightarrow>
     close l' (fst (snd (close l g self))) (snd (snd (close l g self)))
       = (Inr (), snd (close l g self))"
  by (auto simp: close_def Let_def split: if_splits thread_local.splits)

theorem close_after_success_is_noop_witness:
  "fst (close lib0 globals0 loop0) = Inr ()
   \<and> closed (snd (snd (close lib0 globals0 loop0)))
   \<and> Loop_loops (fst (snd (close lib0 globals0 loop0))) = {}
   \<and> close (lib0\<lparr>uv_loop_close := -16\<rparr>) (fst (snd (close lib0 globals0 loop0)))
        (snd (snd (close lib0 globals0 loop0)))
       = (Inr (), snd (close lib0 globals0 loop0))"
proof -
  have c: "fst (close lib0 globals0 loop0) = Inr ()"
    by (simp add: close_def lib0_def globals0_def loop0_def)
  have d: "closed (snd (snd (close lib0 globals0 loop0)))
     \<and> Loop_loops (fst (snd (close lib0 globals0 loop0))) = {}"
    by (simp add: close_def lib0_def globals0_def loop0_def)
  from close_after_success_is_noop [OF c, of "lib0\<lparr>uv_loop_close := -16\<rparr>"] c d show ?thesis
    by simp
qed

section \<open>Pipe names and the pending queue\<close>

lemma ffi_string_full:
  "0 \<notin> set nm \<Longrightarrow> take n buf = nm \<Longrightarrow> ffi_string buf n = nm"
  by (auto simp: ffi_string_def takeWhile_eq_all_conv)

lemma sockname_unfold:
  assumes "\<not> closing self"
    and "uv_pipe_getsockname l 0 (ffi_new_chars 255) 255 = (code1, buf1, size1)"
    and "uv_pipe_getsockname l 1 (ffi_new_chars size1) size1 = (code2, buf2, size2)"
  shows "sockname l self =
     (if code1 = ENOBUFS l then
        ((if code2 \<noteq> SUCCESS l then Inl (UVError code2)
          else (case decode l (ffi_string buf2 size2) of
                  None \<Rightarrow> Inl UnicodeDecodeError | Some s \<Rightarrow> Inr s)),
         [(255, 255), (size1, size1)])
      else
        ((if code1 \<noteq> SUCCESS l then Inl (UVError code1)
          else (case decode l (ffi_string buf1 size1) of
                  None \<Rightarrow> Inl UnicodeDecodeError | Some s \<Rightarrow> Inr s)),
         [(255, 255)]))"
  using assms
  by (simp add: sockname_def Let_def ffi_new_chars_def split: option.splits)

lemma peername_as_sockname:
  "peername l self = sockname (l\<lparr>uv_pipe_getsockname := uv_pipe_getpeername l\<rparr>) self"
  by (simp add: peername_def sockname_def Let_def split: prod.splits)

lemma name_backend_first:
  "uv_pipe_getsockname pipe_lib0 0 (ffi_new_chars 255) 255
     = (ENOBUFS pipe_lib0, ffi_new_chars 255, 301)"
  by (simp add: pipe_lib0_def name_backend_def long_name_def)

lemma name_backend_second:
  "uv_pipe_getsockname pipe_lib0 1 (ffi_new_chars 301) 301
     = (SUCCESS pipe_lib0, long_name @ [0], 300)"
  by (simp add: pipe_lib0_def name_backend_def long_name_def ffi_new_chars_def)

lemma long_name_written: "take 300 (long_name @ [0]) = long_name \<and> 0 \<notin> set long_name"
  by (simp add: long_name_def)

lemma abstract_name_first:
  "uv_pipe_getsockname pipe_lib1 0 (ffi_new_chars 255) 255
     = (SUCCESS pipe_lib1, abstract_name @ replicate 251 0, 4)"
  by (simp add: pipe_lib1_def pipe_lib0_def name_backend_def abstract_name_def
      ffi_new_chars_def)

text \<open>
  Claim C9, as the code has it. On a Pipe that is not closing, with \<open>(code1, buf1, size1)\<close>
  the backend's answer to the first query and \<open>(code2, buf2, size2)\<close> its answer to a
  second one: the first query passes a buffer of 255 bytes and the size 255; there is no
  second query unless the first answer is ENOBUFS, and then there is exactly one, with a
  buffer of the size the backend reported; where the last answer is SUCCESS, the result is
  the decoded bytes that the backend wrote, up to the size it reported and up to the first
  zero byte among them; so where the backend wrote a name \<open>nm\<close> without a zero byte, with
  its length as the size, the result is the whole of \<open>nm\<close> decoded, whatever its length;
  every other last status \<open>code\<close> raises \<open>UVError code\<close>. \<open>peername\<close> is \<open>sockname\<close> over
  the backend's \<^verbatim>\<open>uv_pipe_getpeername\<close>.
\<close>

theorem sockname_peername_retry_once:
  assumes "\<not> closing self" and "ENOBUFS l \<noteq> SUCCESS l"
    and "uv_pipe_getsockname l 0 (ffi_new_chars 255) 255 = (code1, buf1, size1)"
    and "uv_pipe_getsockname l 1 (ffi_new_chars size1) size1 = (code2, buf2, size2)"
  shows "hd (snd (sockname l self)) = (255, 255)
    \<and> (code1 \<noteq> ENOBUFS l \<longrightarrow> snd (sockname l self) = [(255, 255)])
    \<and> (code1 = ENOBUFS l \<longrightarrow> snd (sockname l self) = [(255, 255), (size1, size1)])
    \<and> (code1 = SUCCESS l
          \<and> decode l (takeWhile (\<lambda>b. b \<noteq> 0) (take size1 buf1)) = Some t
          \<longrightarrow> fst (sockname l self) = Inr t)
    \<and> (code1 = ENOBUFS l \<and> code2 = SUCCESS l
          \<and> decode l (takeWhile (\<lambda>b. b \<noteq> 0) (take size2 buf2)) = Some t
          \<longrightarrow> fst (sockname l self) = Inr t)
    \<and> (code1 = SUCCESS l \<and> take size1 buf1 = nm \<and> 0 \<notin> set nm \<and> decode l nm = Some s
          \<longrightarrow> fst (sockname l self) = Inr s)
    \<and> (code1 = ENOBUFS l \<and> code2 = SUCCESS l \<and> take size2 buf2 = nm \<and> 0 \<notin> set nm
          \<and> decode l nm = Some s
          \<longrightarrow> fst (sockname l self) = Inr s)
    \<and> (code1 \<noteq> ENOBUFS l \<and> code1 \<noteq> SUCCESS l
          \<longrightarrow> fst (sockname l self) = Inl (UVError code1))
    \<and> (code1 = ENOBUFS l \<and> code2 \<noteq> SUCCESS l
          \<longrightarrow> fst (sockname l self) = Inl (UVError code2))
    \<and> peername l self = sockname (l\<lparr>uv_pipe_getsockname := uv_pipe_getpeername l\<rparr>) self"
proof -
  have z1: "ffi_string buf1 size1 = takeWhile (\<lambda>b. b \<noteq> 0) (take size1 buf1)"
    and z2: "ffi_string buf2 size2 = takeWhile (\<lambda>b. b \<noteq> 0) (take size2 buf2)"
    by (simp_all add: ffi_string_def)
  have f1: "take size1 buf1 = nm \<and> 0 \<notin> set nm \<longrightarrow> ffi_string buf1 size1 = nm"
    and f2: "take size2 buf2 = nm \<and> 0 \<notin> set nm \<longrightarrow> ffi_string buf2 size2 = nm"
    by (simp_all add: ffi_string_full)
  from assms(2) sockname_unfold [OF assms(1,3,4)] peername_as_sockname [of l self]
       z1 [symmetric] z2 [symmetric] f1 f2
  show ?thesis by auto
qed

theorem sockname_peername_retry_once_witness:
  "\<not> closing pipe0 \<and> ENOBUFS pipe_lib0 \<noteq> SUCCESS pipe_lib0
   \<and> uv_pipe_getsockname pipe_lib0 0 (ffi_new_chars 255) 255
       = (ENOBUFS pipe_lib0, ffi_new_chars 255, 301)
   \<and> uv_pipe_getsockname pipe_lib0 1 (ffi_new_chars 301) 301
       = (SUCCESS pipe_lib0, long_name @ [0], 300)
   \<and> length long_name = 300
   \<and> snd (sockname pipe_lib0 pipe0) = [(255, 255), (301, 301)]
   \<and> fst (sockname pipe_lib0 pipe0) = Inr (map (\<lambda>b. char_of (unat b)) long_name)"
proof -
  have c: "\<not> closing pipe0" by (simp add: pipe0_def)
  have d: "ENOBUFS pipe_lib0 \<noteq> SUCCESS pipe_lib0" by (simp add: pipe_lib0_def)
  have e: "decode pipe_lib0 long_name = Some (map (\<lambda>b. char_of (unat b)) long_name)"
    by (simp add: pipe_lib0_def)
  have n: "length long_name = 300" by (simp add: long_name_def)
  from sockname_peername_retry_once
         [OF c d name_backend_first name_backend_second,
          of "[]" long_name "map (\<lambda>b. char_of (unat b)) long_name"]
       c d e name_backend_first name_backend_second long_name_written n
  show ?thesis by simp
qed

text \<open>
  Claim C9 as stated fails: the backend answers the first query with SUCCESS and a name of
  four bytes whose first byte is zero; the result is the empty string, not the four
  characters of the name.
\<close>

theorem sockname_zero_byte_truncated_counterexample:
  "\<not> closing pipe0
   \<and> uv_pipe_getsockname pipe_lib1 0 (ffi_new_chars 255) 255
       = (SUCCESS pipe_lib1, abstract_name @ replicate 251 0, 4)
   \<and> length abstract_name = 4
   \<and> decode pipe_lib1 abstract_name = Some (map (\<lambda>b. char_of (unat b)) abstract_name)
   \<and> length (map (\<lambda>b. char_of (unat b)) abstract_name) = 4
   \<and> snd (sockname pipe_lib1 pipe0) = [(255, 255)]
   \<and> fst (sockname pipe_lib1 pipe0) = Inr []
   \<and> fst (sockname pipe_lib1 pipe0) \<noteq> Inr (map (\<lambda>b. char_of (unat b)) abstract_name)
   \<and> fst (peername pipe_lib1 pipe0) = Inr []"
proof -
  have c: "\<not> closing pipe0" by (simp add: pipe0_def)
  have e: "ENOBUFS pipe_lib1 = -105 \<and> SUCCESS pipe_lib1 = 0
     \<and> decode pipe_lib1 = (\<lambda>bs. Some (map (\<lambda>b. char_of (unat b)) bs))
     \<and> uv_pipe_getpeername pipe_lib1 = uv_pipe_getsockname pipe_lib1"
    by (simp add: pipe_lib1_def pipe_lib0_def)
  have n: "length abstract_name = 4 \<and> ffi_string (abstract_name @ replicate 251 0) 4 = []"
    by (simp add: abstract_name_def ffi_string_def)
  obtain code2 buf2 size2 where
    r: "uv_pipe_getsockname pipe_lib1 1 (ffi_new_chars 4) 4 = (code2, buf2, size2)"
    by (cases "uv_pipe_getsockname pipe_lib1 1 (ffi_new_chars 4) 4") auto
  have s: "sockname pipe_lib1 pipe0 = (Inr [], [(255, 255)])"
    using sockname_unfold [OF c abstract_name_first r] e n by simp
  have "pipe_lib1\<lparr>uv_pipe_getsockname := uv_pipe_getpeername pipe_lib1\<rparr> = pipe_lib1"
    by (simp add: pipe_lib1_def pipe_lib0_def)
  with peername_as_sockname [of pipe_lib1 pipe0]
  have p: "peername pipe_lib1 pipe0 = sockname pipe_lib1 pipe0"
    by simp
  from c abstract_name_first e n s p show ?thesis
    by (simp add: abstract_name_def)
qed

text \<open>
  Claim C10. On a Pipe that is closing or closed, \<open>pending_count\<close> returns 0 without
  raising, and \<open>pending_type\<close> raises the closed-handle fault.
\<close>

theorem pending_count_type_closing_asymmetry:
  "closing self \<Longrightarrow>
     pending_count l self = Inr 0 \<and> pending_type l self = Inl ClosedHandleError"
  by (simp add: pending_count_def pending_type_def)

theorem pending_count_type_closing_asymmetry_witness:
  "closing (pipe0\<lparr>closing := True\<rparr>)
   \<and> pending_count pipe_lib0 (pipe0\<lparr>closing := True\<rparr>) = Inr 0
   \<and> pending_type pipe_lib0 (pipe0\<lparr>closing := True\<rparr>) = Inl ClosedHandleError
   \<and> pending_count pipe_lib0 pipe0 = Inr 2
   \<and> pending_type pipe_lib0 pipe0 = Inr ''Pipe''"
proof -
  have c: "closing (pipe0\<lparr>closing := True\<rparr>)" by simp
  have o: "pending_count pipe_lib0 pipe0 = Inr 2 \<and> pending_type pipe_lib0 pipe0 = Inr ''Pipe''"
    by (simp add: pending_count_def pending_type_def pipe_lib0_def pipe0_def)
  from pending_count_type_closing_asymmetry [OF c, of pipe_lib0] c o show ?thesis
    by simp
qed

section \<open>Issuing a connect request\<close>



end
